theory Spec2Isabelle
  imports Main "HOL-Library.AList"
begin

section \<open>JSON values, documents and requests\<close>

text \<open>
  The service of \<^verbatim>\<open>server.js\<close> receives JSON bodies, keeps documents in MongoDB through
  mongoose models and answers with a status and a JSON body. A value is a JSON value, extended
  by \<open>undefined\<close> (what destructuring a missing member yields) and by dates. Identifiers
  (ObjectIds) are written as the strings that stand for them in a path and in a response.
\<close>

datatype jsval =
    JUndefined
  | JNull
  | JBool bool
  | JNum int
  | JStr string
  | JDate nat
  | JArr "jsval list"
  | JObj "(string \<times> jsval) list"

type_synonym doc = "(string \<times> jsval) list"

text \<open>JavaScript truthiness, as used by \<^verbatim>\<open>!fullName || ...\<close>.\<close>

fun truthy :: "jsval \<Rightarrow> bool" where
  "truthy JUndefined = False"
| "truthy JNull = False"
| "truthy (JBool b) = b"
| "truthy (JNum n) = (n \<noteq> 0)"
| "truthy (JStr s) = (s \<noteq> [])"
| "truthy (JDate t) = True"
| "truthy (JArr vs) = True"
| "truthy (JObj ms) = True"

record request =
  params_id :: string
  body :: doc

text \<open>\<^verbatim>\<open>const { k } = req.body\<close>: a member that is not there is \<open>undefined\<close>.\<close>

definition get :: "doc \<Rightarrow> string \<Rightarrow> jsval" where
  "get d k = (case map_of d k of None \<Rightarrow> JUndefined | Some v \<Rightarrow> v)"

definition body_field :: "request \<Rightarrow> string \<Rightarrow> jsval" where
  "body_field req k = get (body req) k"

text \<open>\<^verbatim>\<open>res.json({ ... })\<close>: JSON has no \<open>undefined\<close>; such members are left out.\<close>

definition json :: "doc \<Rightarrow> jsval" where
  "json ms = JObj (filter (\<lambda>(k, v). v \<noteq> JUndefined) ms)"

text \<open>
  What a handler does with a request: it sends a response (status, and a JSON body unless it
  calls \<^verbatim>\<open>send()\<close> without one), or a rejected promise leaves the \<^verbatim>\<open>async\<close> handler
  uncaught and the handler sends nothing.
\<close>

datatype outcome = Response nat "jsval option" | Unhandled

definition msg :: "string \<Rightarrow> jsval option" where
  "msg t = Some (JObj [(''message'', JStr t)])"

fun status_of :: "outcome \<Rightarrow> nat option" where
  "status_of (Response c b) = Some c"
| "status_of Unhandled = None"

text \<open>An awaited promise either rejects (the \<^verbatim>\<open>await\<close> throws) or resolves to a value.\<close>

datatype 'a promise = Rejected | Resolved 'a

section \<open>The environment of one request\<close>

datatype store_op = FindOne | Find | FindById | FindByIdAndUpdate | FindByIdAndDelete | Save

datatype ptype = TString | TNumber | TBoolean | TDate | TObjectId | TArray | TMixed

text \<open>
  Everything the outcome of a handler depends on besides the request and the stored documents:
  \<^item> \<open>fails op\<close>: the store operation \<open>op\<close> of this request is rejected by the driver or the
    server for a reason that the request does not decide (connection loss, a violated unique
    index). No handler calls the same operation twice.
  \<^item> \<open>fresh_id\<close>: the ObjectId that mongoose generates for a new document;
  \<open>stamp k\<close>: the clock reading taken for the date field \<open>k\<close>.
  \<^item> \<open>coerce\<close>: mongoose's cast of a value that does not have the type of its schema path
    (\<open>None\<close> is a CastError); \<open>operator_update\<close>: the effect of an update document with
    \<^verbatim>\<open>$\<close> operators or dotted paths (\<open>None\<close> is a rejection); \<open>query_operator op a\<close>:
    the condition on a field's value that a query operator other than \<^verbatim>\<open>$eq\<close> and
    \<^verbatim>\<open>$ne\<close> stands for (\<open>None\<close>: the query is rejected). None is fixed by this repository.
  \<^item> \<open>salt\<close>, \<open>hashpw\<close>, \<open>comparepw\<close>: bcryptjs, the salt it draws, the hash of a password
    under a salt, and whether a password matches a hash.
\<close>

record env =
  fails :: "store_op \<Rightarrow> bool"
  fresh_id :: string
  stamp :: "string \<Rightarrow> nat"
  coerce :: "ptype \<Rightarrow> jsval \<Rightarrow> jsval option"
  operator_update :: "doc \<Rightarrow> doc \<Rightarrow> doc option"
  query_operator :: "string \<Rightarrow> jsval \<Rightarrow> (jsval option \<Rightarrow> bool) option"
  salt :: string
  hashpw :: "string \<Rightarrow> string \<Rightarrow> string"
  comparepw :: "string \<Rightarrow> string \<Rightarrow> bool"

subsection \<open>bcryptjs\<close>

text \<open>
  \<^verbatim>\<open>bcrypt.hash(s, 10)\<close> and \<^verbatim>\<open>bcrypt.compare(s, hash)\<close> without a callback return a promise;
  it rejects with "Illegal arguments" unless the arguments are strings.
\<close>

definition bcrypt_hash :: "env \<Rightarrow> jsval \<Rightarrow> string promise" where
  "bcrypt_hash e s = (case s of JStr p \<Rightarrow> Resolved (hashpw e (salt e) p) | _ \<Rightarrow> Rejected)"

definition bcrypt_compare :: "env \<Rightarrow> jsval \<Rightarrow> jsval \<Rightarrow> bool promise" where
  "bcrypt_compare e s h =
     (case s of
        JStr p \<Rightarrow> (case h of JStr hs \<Rightarrow> Resolved (comparepw e p hs) | _ \<Rightarrow> Rejected)
      | _ \<Rightarrow> Rejected)"

section \<open>Schemas and models\<close>

datatype popt = Required | Unique | Sparse | Enum "string list" | Default jsval | DefaultNow | DefaultFreshId

datatype path = Path string ptype "popt list"

fun p_name :: "path \<Rightarrow> string" where "p_name (Path k t os) = k"
fun p_type :: "path \<Rightarrow> ptype" where "p_type (Path k t os) = t"
fun p_opts :: "path \<Rightarrow> popt list" where "p_opts (Path k t os) = os"

datatype collection = Users | Lessons | Subscriptions | PaymentMethods | GeneralMessages | Books

record model =
  m_coll :: collection
  m_discr :: "string option"
  m_paths :: "path list"

definition userSchema :: "path list" where
  "userSchema =
    [Path ''fullName'' TString [Required],
     Path ''password'' TString [Required],
     Path ''type'' TString [Enum [''student'', ''teacher'', ''support''], Required],
     Path ''createdAt'' TDate [DefaultNow],
     Path ''lastActivity'' TDate [DefaultNow]]"

definition studentSchema :: "path list" where
  "studentSchema =
    [Path ''studentNumber'' TString [Unique, Sparse],
     Path ''parentNumber'' TString [],
     Path ''gradeLevel'' TString [Enum [''first'', ''second'', ''third'', ''all''], Default (JStr ''all'')],
     Path ''balance'' TNumber [Default (JNum 0)],
     Path ''points'' TNumber [Default (JNum 0)],
     Path ''isBanned'' TBoolean [Default (JBool False)],
     Path ''banReason'' TString [],
     Path ''bannedAt'' TDate [],
     Path ''bannedBy'' TObjectId [],
     Path ''bannedByType'' TString [Enum [''Teacher'', ''SupportStaff'']]]"

definition teacherSchema :: "path list" where
  "teacherSchema =
    [Path ''teacherCode'' TString [Unique, Required],
     Path ''phoneNumber'' TString [Unique, Required]]"

definition supportStaffSchema :: "path list" where
  "supportStaffSchema =
    [Path ''supportCode'' TString [Unique, Required],
     Path ''isOnline'' TBoolean [Default (JBool False)],
     Path ''lastLogout'' TDate []]"

definition lessonSchema :: "path list" where
  "lessonSchema =
    [Path ''title'' TString [Required],
     Path ''price'' TNumber [Required],
     Path ''description'' TString [Required],
     Path ''grade'' TString [Enum [''first'', ''second'', ''third'', ''all''], Required],
     Path ''coverImage'' TString [],
     Path ''videoFile'' TString [],
     Path ''pdfFile'' TString [],
     Path ''homeworkFile'' TString [],
     Path ''solutionFile'' TString [],
     Path ''homeworkSolutionVideo'' TString [],
     Path ''examQuestions'' TArray [],
     Path ''isActive'' TBoolean [Default (JBool True)],
     Path ''createdAt'' TDate [DefaultNow],
     Path ''updatedAt'' TDate [DefaultNow]]"

definition subscriptionSchema :: "path list" where
  "subscriptionSchema =
    [Path ''name'' TString [Required],
     Path ''description'' TString [Required],
     Path ''price'' TNumber [Required],
     Path ''image'' TString [],
     Path ''duration'' TNumber [Required],
     Path ''includedLessons'' TArray [],
     Path ''isActive'' TBoolean [Default (JBool True)],
     Path ''createdAt'' TDate [DefaultNow]]"

definition paymentMethodSchema :: "path list" where
  "paymentMethodSchema =
    [Path ''name'' TString [Required],
     Path ''number'' TString [Required],
     Path ''password'' TString [Required],
     Path ''createdAt'' TDate [DefaultNow]]"

definition generalMessageSchema :: "path list" where
  "generalMessageSchema =
    [Path ''target'' TString [Enum [''all'', ''first'', ''second'', ''third''], Required],
     Path ''title'' TString [Required],
     Path ''content'' TString [Required],
     Path ''duration'' TNumber [Required],
     Path ''priority'' TString [Enum [''normal'', ''high'', ''urgent''], Default (JStr ''normal'')],
     Path ''createdAt'' TDate [DefaultNow],
     Path ''teacherId'' TObjectId [Required]]"

definition bookSchema :: "path list" where
  "bookSchema =
    [Path ''name'' TString [Required],
     Path ''description'' TString [Required],
     Path ''price'' TNumber [Required],
     Path ''grade'' TString [Enum [''first'', ''second'', ''third'', ''all''], Required],
     Path ''imageKey'' TString [],
     Path ''availability'' TString [Enum [''available'', ''limited'', ''unavailable''], Default (JStr ''available'')],
     Path ''createdAt'' TDate [DefaultNow]]"

text \<open>
  \<^verbatim>\<open>User.discriminator(v, schema)\<close>: the model keeps its documents in the collection of
  \<^verbatim>\<open>User\<close>, and its schema is the base schema extended by \<open>schema\<close>. The discriminator
  key is the one of the base schema: \<^verbatim>\<open>userSchema\<close> is made without the option
  \<^verbatim>\<open>discriminatorKey\<close>, so the key is mongoose's default \<open>__t\<close> (the option given with the
  three child schemas is not used). The model writes \<open>__t = v\<close> into the documents it makes
  and its queries see the documents whose \<open>__t\<close> is \<open>v\<close>. \<open>type\<close> is an ordinary path of
  \<^verbatim>\<open>userSchema\<close>.
\<close>

definition discriminatorKey :: string where
  "discriminatorKey = ''__t''"

definition Student :: model where
  "Student = \<lparr>m_coll = Users, m_discr = Some ''student'', m_paths = userSchema @ studentSchema\<rparr>"

definition Teacher :: model where
  "Teacher = \<lparr>m_coll = Users, m_discr = Some ''teacher'', m_paths = userSchema @ teacherSchema\<rparr>"

definition SupportStaff :: model where
  "SupportStaff = \<lparr>m_coll = Users, m_discr = Some ''support'', m_paths = userSchema @ supportStaffSchema\<rparr>"

definition Lesson :: model where
  "Lesson = \<lparr>m_coll = Lessons, m_discr = None, m_paths = lessonSchema\<rparr>"

definition Subscription :: model where
  "Subscription = \<lparr>m_coll = Subscriptions, m_discr = None, m_paths = subscriptionSchema\<rparr>"

definition PaymentMethod :: model where
  "PaymentMethod = \<lparr>m_coll = PaymentMethods, m_discr = None, m_paths = paymentMethodSchema\<rparr>"

definition GeneralMessage :: model where
  "GeneralMessage = \<lparr>m_coll = GeneralMessages, m_discr = None, m_paths = generalMessageSchema\<rparr>"

definition Book :: model where
  "Book = \<lparr>m_coll = Books, m_discr = None, m_paths = bookSchema\<rparr>"

text \<open>
  Every mongoose schema also has the paths \<open>_id\<close> and \<open>__v\<close> (the version key), and the
  schema of a discriminator has the discriminator key, whose default is the discriminator
  value.
\<close>

definition paths_of :: "model \<Rightarrow> path list" where
  "paths_of m =
     Path ''_id'' TObjectId [DefaultFreshId] # m_paths m
     @ (case m_discr m of None \<Rightarrow> [] | Some v \<Rightarrow> [Path discriminatorKey TString [Default (JStr v)]])
     @ [Path ''__v'' TNumber [Default (JNum 0)]]"

section \<open>Mongoose documents: construction, casting and validation\<close>

subsection \<open>ObjectIds\<close>

text \<open>
  An ObjectId is written as a string of 24 hexadecimal digits. Upper and lower case digits
  stand for the same identifier, which is rendered in lower case. A string of 12 characters is
  taken for an ObjectId by some versions of the driver and refused by others (\<open>coerce\<close>
  decides); every other string is a CastError (\<open>None\<close>).
\<close>

definition is_hex :: "char \<Rightarrow> bool" where
  "is_hex c = (c \<in> set ''0123456789abcdefABCDEF'')"

definition hex_lower :: "char \<Rightarrow> char" where
  "hex_lower c =
     (if c = CHR ''A'' then CHR ''a'' else if c = CHR ''B'' then CHR ''b''
      else if c = CHR ''C'' then CHR ''c'' else if c = CHR ''D'' then CHR ''d''
      else if c = CHR ''E'' then CHR ''e'' else if c = CHR ''F'' then CHR ''f'' else c)"

definition castObjectId :: "env \<Rightarrow> string \<Rightarrow> string option" where
  "castObjectId e i =
     (if length i = 24 \<and> list_all is_hex i then Some (map hex_lower i)
      else if length i = 12
           then (case coerce e TObjectId (JStr i) of Some (JStr j) \<Rightarrow> Some j | _ \<Rightarrow> None)
      else None)"

subsection \<open>Casting\<close>

text \<open>
  A value given for a schema path is cast to the type of the path. \<open>undefined\<close>, \<open>null\<close> and
  a value that already has the type are kept; a string given for an ObjectId path is cast as
  above; any other value is coerced (a number given for a String path becomes its string), or
  is a CastError (\<open>None\<close>).
\<close>

fun well_typed :: "ptype \<Rightarrow> jsval \<Rightarrow> bool" where
  "well_typed TString (JStr s) = True"
| "well_typed TNumber (JNum n) = True"
| "well_typed TBoolean (JBool b) = True"
| "well_typed TDate (JDate t) = True"
| "well_typed TMixed v = True"
| "well_typed t v = False"

definition cast :: "env \<Rightarrow> ptype \<Rightarrow> jsval \<Rightarrow> jsval option" where
  "cast e t v =
     (if v = JUndefined \<or> v = JNull \<or> well_typed t v then Some v
      else case v of
             JStr i \<Rightarrow> (if t = TObjectId
                         then (case castObjectId e i of None \<Rightarrow> None | Some j \<Rightarrow> Some (JStr j))
                         else coerce e t v)
           | _ \<Rightarrow> coerce e t v)"

text \<open>The default of a path that was given no value; an array path defaults to the empty array.\<close>

fun default_opt :: "env \<Rightarrow> string \<Rightarrow> popt list \<Rightarrow> jsval option" where
  "default_opt e k [] = None"
| "default_opt e k (Default v # os) = Some v"
| "default_opt e k (DefaultNow # os) = Some (JDate (stamp e k))"
| "default_opt e k (DefaultFreshId # os) = Some (JStr (fresh_id e))"
| "default_opt e k (opt # os) = default_opt e k os"

definition default_of :: "env \<Rightarrow> path \<Rightarrow> jsval option" where
  "default_of e p =
     (case default_opt e (p_name p) (p_opts p) of
        Some v \<Rightarrow> Some v
      | None \<Rightarrow> (if p_type p = TArray then Some (JArr []) else None))"

text \<open>
  \<^verbatim>\<open>new Model(vals)\<close>: for each path of the schema, in the strict mode that is mongoose's
  default (members of \<open>vals\<close> that are no path of the schema are dropped), the cast value
  given for it, or else its default. A CastError is kept with the document and makes
  \<^verbatim>\<open>save()\<close> reject: the draft is \<open>None\<close>.
\<close>

definition construct_path :: "env \<Rightarrow> doc \<Rightarrow> path \<Rightarrow> doc option" where
  "construct_path e vals p =
     (case map_of vals (p_name p) of
        Some v \<Rightarrow>
          (if v = JUndefined
           then (case default_of e p of None \<Rightarrow> Some [] | Some dv \<Rightarrow> Some [(p_name p, dv)])
           else (case cast e (p_type p) v of None \<Rightarrow> None | Some v' \<Rightarrow> Some [(p_name p, v')]))
      | None \<Rightarrow> (case default_of e p of None \<Rightarrow> Some [] | Some dv \<Rightarrow> Some [(p_name p, dv)]))"

fun construct_paths :: "env \<Rightarrow> doc \<Rightarrow> path list \<Rightarrow> doc option" where
  "construct_paths e vals [] = Some []"
| "construct_paths e vals (p # ps) =
     (case construct_path e vals p of
        None \<Rightarrow> None
      | Some fs \<Rightarrow> (case construct_paths e vals ps of None \<Rightarrow> None | Some d \<Rightarrow> Some (fs @ d)))"

definition construct :: "env \<Rightarrow> model \<Rightarrow> doc \<Rightarrow> doc option" where
  "construct e m vals = construct_paths e vals (paths_of m)"

text \<open>
  The validators that \<^verbatim>\<open>save()\<close> runs: \<^verbatim>\<open>required\<close> (the value is there, is not
  \<open>null\<close>, and is not the empty string) and \<^verbatim>\<open>enum\<close> (a value that is there is one of the
  listed strings). \<^verbatim>\<open>unique\<close> and \<^verbatim>\<open>sparse\<close> declare an index of the store and
  validate nothing here; a violated index is a rejection that \<open>fails Save\<close> stands for.
\<close>

fun present :: "jsval option \<Rightarrow> bool" where
  "present None = False"
| "present (Some JUndefined) = False"
| "present (Some JNull) = False"
| "present (Some (JStr s)) = (s \<noteq> [])"
| "present (Some v) = True"

fun enum_ok :: "string list \<Rightarrow> jsval option \<Rightarrow> bool" where
  "enum_ok vs None = True"
| "enum_ok vs (Some JUndefined) = True"
| "enum_ok vs (Some JNull) = True"
| "enum_ok vs (Some (JStr s)) = (s \<in> set vs)"
| "enum_ok vs (Some v) = False"

fun opt_ok :: "jsval option \<Rightarrow> popt \<Rightarrow> bool" where
  "opt_ok v Required = present v"
| "opt_ok v (Enum vs) = enum_ok vs v"
| "opt_ok v opt = True"

definition path_ok :: "doc \<Rightarrow> path \<Rightarrow> bool" where
  "path_ok d p = list_all (opt_ok (map_of d (p_name p))) (p_opts p)"

definition validate :: "model \<Rightarrow> doc \<Rightarrow> bool" where
  "validate m d = list_all (path_ok d) (paths_of m)"

section \<open>The document store\<close>

type_synonym db = "collection \<Rightarrow> doc list"

definition doc_id :: "doc \<Rightarrow> jsval option" where
  "doc_id d = map_of d ''_id''"

definition is_a :: "model \<Rightarrow> doc \<Rightarrow> bool" where
  "is_a m d = (case m_discr m of None \<Rightarrow> True | Some v \<Rightarrow> map_of d discriminatorKey = Some (JStr v))"

text \<open>
  The ObjectId of a stored document, and the documents of a model that have a given ObjectId:
  identifiers are compared as ObjectIds, not as the strings they are written as.
\<close>

definition oid :: "env \<Rightarrow> doc \<Rightarrow> string option" where
  "oid e d = (case doc_id d of Some (JStr i) \<Rightarrow> castObjectId e i | _ \<Rightarrow> None)"

definition has_id :: "env \<Rightarrow> model \<Rightarrow> string \<Rightarrow> doc \<Rightarrow> bool" where
  "has_id e m j d = (is_a m d \<and> oid e d = Some j)"

text \<open>
  Query filters: \<^verbatim>\<open>{ k: v }\<close>, \<^verbatim>\<open>{ $or: [...] }\<close>, and an object of several members
  (all of them hold). A value \<open>v\<close> is cast by the schema before the query is sent, and the
  field has to equal it; the driver sends \<open>undefined\<close> as \<open>null\<close>, and \<open>null\<close> matches a
  field that is \<open>null\<close> or missing. When \<open>v\<close> is an object with a member whose name starts
  with \<^verbatim>\<open>$\<close>, its members are query operators, all of which the field has to satisfy:
  \<^verbatim>\<open>{ k: { $ne: null } }\<close> matches the documents in which \<open>k\<close> is there and not \<open>null\<close>.
  When \<open>v\<close> is an array and the path is no array path, mongoose turns it into
  \<^verbatim>\<open>{ $in: v }\<close>: the elements are cast, and the field has to equal one of them.
  The handlers pass members of the request body into filters as they are.
\<close>

datatype query = Field string jsval | AnyOf "query list" | AllOf "query list"

fun type_of_path :: "path list \<Rightarrow> string \<Rightarrow> ptype option" where
  "type_of_path [] k = None"
| "type_of_path (p # ps) k = (if p_name p = k then Some (p_type p) else type_of_path ps k)"

fun those_opt :: "'a option list \<Rightarrow> 'a list option" where
  "those_opt [] = Some []"
| "those_opt (None # xs) = None"
| "those_opt (Some x # xs) = (case those_opt xs of None \<Rightarrow> None | Some ys \<Rightarrow> Some (x # ys))"

definition is_operator :: "string \<Rightarrow> bool" where
  "is_operator k = (case k of [] \<Rightarrow> False | c # cs \<Rightarrow> c = CHR ''$'')"

definition operator_object :: "jsval \<Rightarrow> bool" where
  "operator_object v = (case v of JObj ms \<Rightarrow> list_ex is_operator (map fst ms) | _ \<Rightarrow> False)"

definition members :: "jsval \<Rightarrow> (string \<times> jsval) list" where
  "members v = (case v of JObj ms \<Rightarrow> ms | _ \<Rightarrow> [])"

definition eq_value :: "jsval \<Rightarrow> jsval option \<Rightarrow> bool" where
  "eq_value v fv =
     (if v = JUndefined \<or> v = JNull then fv = None \<or> fv = Some JNull else fv = Some v)"

definition cast_operand :: "env \<Rightarrow> ptype option \<Rightarrow> jsval \<Rightarrow> jsval option" where
  "cast_operand e t a = (case t of None \<Rightarrow> Some a | Some ty \<Rightarrow> cast e ty a)"

definition compile_operator ::
  "env \<Rightarrow> ptype option \<Rightarrow> string \<times> jsval \<Rightarrow> (jsval option \<Rightarrow> bool) option" where
  "compile_operator e t c =
     (case c of (op, a) \<Rightarrow>
        if op = ''$eq'' then
          (case cast_operand e t a of None \<Rightarrow> None | Some v \<Rightarrow> Some (eq_value v))
        else if op = ''$ne'' then
          (case cast_operand e t a of None \<Rightarrow> None | Some v \<Rightarrow> Some (\<lambda>fv. \<not> eq_value v fv))
        else query_operator e op a)"

definition in_like :: "ptype option \<Rightarrow> jsval \<Rightarrow> bool" where
  "in_like t v = (case v of JArr vs \<Rightarrow> t \<noteq> None \<and> t \<noteq> Some TArray | _ \<Rightarrow> False)"

definition elements :: "jsval \<Rightarrow> jsval list" where
  "elements v = (case v of JArr vs \<Rightarrow> vs | _ \<Rightarrow> [])"

definition compile_field :: "env \<Rightarrow> ptype option \<Rightarrow> string \<Rightarrow> jsval \<Rightarrow> (doc \<Rightarrow> bool) option" where
  "compile_field e t k v =
     (if operator_object v
      then (case those_opt (map (compile_operator e t) (members v)) of
              None \<Rightarrow> None
            | Some ps \<Rightarrow> Some (\<lambda>d. list_all (\<lambda>p. p (map_of d k)) ps))
      else if in_like t v
      then (case those_opt (map (cast_operand e t) (elements v)) of
              None \<Rightarrow> None
            | Some vs \<Rightarrow> Some (\<lambda>d. list_ex (\<lambda>v'. eq_value v' (map_of d k)) vs))
      else (case cast_operand e t v of
              None \<Rightarrow> None
            | Some v' \<Rightarrow> Some (\<lambda>d. eq_value v' (map_of d k))))"

fun compile_query :: "env \<Rightarrow> model \<Rightarrow> query \<Rightarrow> (doc \<Rightarrow> bool) option" where
  "compile_query e m (Field k v) = compile_field e (type_of_path (paths_of m) k) k v"
| "compile_query e m (AnyOf qs) =
     (case those_opt (map (compile_query e m) qs) of
        None \<Rightarrow> None
      | Some ps \<Rightarrow> Some (\<lambda>d. list_ex (\<lambda>p. p d) ps))"
| "compile_query e m (AllOf qs) =
     (case those_opt (map (compile_query e m) qs) of
        None \<Rightarrow> None
      | Some ps \<Rightarrow> Some (\<lambda>d. list_all (\<lambda>p. p d) ps))"

text \<open>\<^verbatim>\<open>Model.findOne(filter)\<close>: the first document of the model that matches, or \<open>null\<close>.\<close>

definition findOne :: "env \<Rightarrow> model \<Rightarrow> query \<Rightarrow> db \<Rightarrow> doc option promise" where
  "findOne e m q s =
     (if fails e FindOne then Rejected
      else case compile_query e m q of
             None \<Rightarrow> Rejected
           | Some p \<Rightarrow> Resolved (List.find (\<lambda>d. is_a m d \<and> p d) (s (m_coll m))))"

text \<open>
  \<^verbatim>\<open>Model.find({}, { k: 0, ... })\<close>: all documents of the model, without the excluded
  fields.
\<close>

definition exclude :: "string list \<Rightarrow> doc \<Rightarrow> doc" where
  "exclude ks d = filter (\<lambda>(k, v). k \<notin> set ks) d"

definition find_docs :: "env \<Rightarrow> model \<Rightarrow> string list \<Rightarrow> db \<Rightarrow> doc list promise" where
  "find_docs e m excluded s =
     (if fails e Find then Rejected
      else Resolved (map (exclude excluded) (filter (is_a m) (s (m_coll m)))))"

text \<open>
  \<^verbatim>\<open>Model.findById(id)\<close>: the identifier of the path is cast to an ObjectId (a CastError
  rejects), and the document of the model with that ObjectId, or \<open>null\<close>, is returned.
\<close>

definition findById :: "env \<Rightarrow> model \<Rightarrow> string \<Rightarrow> db \<Rightarrow> doc option promise" where
  "findById e m i s =
     (if fails e FindById then Rejected
      else case castObjectId e i of
             None \<Rightarrow> Rejected
           | Some j \<Rightarrow> Resolved (List.find (has_id e m j) (s (m_coll m))))"

text \<open>Replacing, and removing, the first document of a list that satisfies \<open>P\<close>.\<close>

fun replace_first :: "('a \<Rightarrow> bool) \<Rightarrow> 'a \<Rightarrow> 'a list \<Rightarrow> 'a list" where
  "replace_first P y [] = []"
| "replace_first P y (x # xs) = (if P x then y # xs else x # replace_first P y xs)"

fun remove_first :: "('a \<Rightarrow> bool) \<Rightarrow> 'a list \<Rightarrow> 'a list" where
  "remove_first P [] = []"
| "remove_first P (x # xs) = (if P x then xs else x # remove_first P xs)"

text \<open>
  \<^verbatim>\<open>doc.save()\<close> of a new document: the document is validated and inserted. The store
  rejects a document whose \<open>_id\<close> is already in the collection.
\<close>

definition save :: "env \<Rightarrow> model \<Rightarrow> doc option \<Rightarrow> db \<Rightarrow> (doc \<times> db) promise" where
  "save e m draft s =
     (if fails e Save then Rejected
      else case draft of
             None \<Rightarrow> Rejected
           | Some d \<Rightarrow>
               (if \<not> validate m d then Rejected
                else if doc_id d \<in> set (map doc_id (s (m_coll m))) then Rejected
                else Resolved (d, s(m_coll m := s (m_coll m) @ [d]))))"

text \<open>
  \<^verbatim>\<open>doc.save()\<close> of a document that was read from the store and assigned to: the document
  is validated and the stored document of that \<open>_id\<close> is brought up to date.
\<close>

definition save_existing :: "env \<Rightarrow> model \<Rightarrow> doc \<Rightarrow> db \<Rightarrow> db promise" where
  "save_existing e m d s =
     (if fails e Save then Rejected
      else if \<not> validate m d then Rejected
      else Resolved (s(m_coll m := replace_first (\<lambda>x. doc_id x = doc_id d) d (s (m_coll m)))))"

text \<open>
  \<^verbatim>\<open>Model.findByIdAndUpdate(id, update, { new: true })\<close>: the identifier is cast (a
  CastError rejects); \<open>null\<close> when no document of the model has it. Otherwise the members of
  \<open>update\<close> that are paths of the schema are cast and set on the document (strict mode drops
  the others, and a member that is \<open>undefined\<close>), the store rejects a change of \<open>_id\<close>, and
  the updated document is returned. An update with a \<^verbatim>\<open>$\<close> operator or a dotted path is
  applied by the store as the operator or the path says.
\<close>

definition special_key :: "string \<Rightarrow> bool" where
  "special_key k = (is_operator k \<or> CHR ''.'' \<in> set k)"

fun cast_update :: "env \<Rightarrow> path list \<Rightarrow> doc \<Rightarrow> doc option" where
  "cast_update e ps [] = Some []"
| "cast_update e ps ((k, v) # u) =
     (case type_of_path ps k of
        None \<Rightarrow> cast_update e ps u
      | Some t \<Rightarrow>
          (if v = JUndefined then cast_update e ps u
           else case cast e t v of
                  None \<Rightarrow> None
                | Some v' \<Rightarrow> (case cast_update e ps u of None \<Rightarrow> None | Some u' \<Rightarrow> Some ((k, v') # u'))))"

fun set_fields :: "doc \<Rightarrow> doc \<Rightarrow> doc" where
  "set_fields d [] = d"
| "set_fields d ((k, v) # u) = set_fields (AList.update k v d) u"

definition apply_update :: "env \<Rightarrow> model \<Rightarrow> doc \<Rightarrow> doc \<Rightarrow> doc option" where
  "apply_update e m d u =
     (if list_ex special_key (map fst u) then operator_update e d u
      else case cast_update e (paths_of m) u of
             None \<Rightarrow> None
           | Some u' \<Rightarrow> Some (set_fields d u'))"

definition findByIdAndUpdate :: "env \<Rightarrow> model \<Rightarrow> string \<Rightarrow> doc \<Rightarrow> db \<Rightarrow> (doc option \<times> db) promise" where
  "findByIdAndUpdate e m i u s =
     (if fails e FindByIdAndUpdate then Rejected
      else case castObjectId e i of
             None \<Rightarrow> Rejected
           | Some j \<Rightarrow>
               (case List.find (has_id e m j) (s (m_coll m)) of
                  None \<Rightarrow> Resolved (None, s)
                | Some d \<Rightarrow>
                    (case apply_update e m d u of
                       None \<Rightarrow> Rejected
                     | Some d' \<Rightarrow>
                         (if doc_id d' \<noteq> doc_id d then Rejected
                          else Resolved (Some d',
                                  s(m_coll m := replace_first (has_id e m j) d' (s (m_coll m))))))))"

text \<open>
  \<^verbatim>\<open>Model.findByIdAndDelete(id)\<close>: the identifier is cast (a CastError rejects);
  \<open>null\<close> when no document of the model has it; otherwise that document, which is removed.
\<close>

definition findByIdAndDelete :: "env \<Rightarrow> model \<Rightarrow> string \<Rightarrow> db \<Rightarrow> (doc option \<times> db) promise" where
  "findByIdAndDelete e m i s =
     (if fails e FindByIdAndDelete then Rejected
      else case castObjectId e i of
             None \<Rightarrow> Rejected
           | Some j \<Rightarrow>
               (case List.find (has_id e m j) (s (m_coll m)) of
                  None \<Rightarrow> Resolved (None, s)
                | Some d \<Rightarrow>
                    Resolved (Some d, s(m_coll m := remove_first (has_id e m j) (s (m_coll m))))))"

section \<open>The request handlers\<close>

type_synonym handler = "env \<Rightarrow> request \<Rightarrow> db \<Rightarrow> outcome \<times> db"

definition get_health :: handler where
  "get_health e req s =
     (Response 200 (Some (json [(''status'', JStr ''ok''), (''message'', JStr ''Server is healthy'')])), s)"

subsection \<open>Authentication\<close>

definition post_auth_register :: handler where
  "post_auth_register e req s =
     (let fullName = body_field req ''fullName'';
          studentNumber = body_field req ''studentNumber'';
          parentNumber = body_field req ''parentNumber'';
          password = body_field req ''password'';
          gradeLevel = body_field req ''gradeLevel''
      in if \<not> truthy fullName \<or> \<not> truthy studentNumber \<or> \<not> truthy parentNumber
            \<or> \<not> truthy password \<or> \<not> truthy gradeLevel
         then (Response 400 (msg ''All fields are required.''), s)
         else
           case findOne e Student
                  (AnyOf [Field ''studentNumber'' studentNumber, Field ''fullName'' fullName]) s of
             Rejected \<Rightarrow> (Response 500 (msg ''Server error during registration.''), s)
           | Resolved (Some existingStudent) \<Rightarrow>
               (Response 409 (msg ''Student with this number or name already exists.''), s)
           | Resolved None \<Rightarrow>
               (case bcrypt_hash e password of
                  Rejected \<Rightarrow> (Response 500 (msg ''Server error during registration.''), s)
                | Resolved hashedPassword \<Rightarrow>
                    (let newStudent = construct e Student
                           [(''fullName'', fullName),
                            (''studentNumber'', studentNumber),
                            (''parentNumber'', parentNumber),
                            (''password'', JStr hashedPassword),
                            (''gradeLevel'', gradeLevel),
                            (''type'', JStr ''student''),
                            (''balance'', JNum 0),
                            (''points'', JNum 0),
                            (''isBanned'', JBool False),
                            (''createdAt'', JDate (stamp e ''createdAt'')),
                            (''lastActivity'', JDate (stamp e ''lastActivity''))]
                     in case save e Student newStudent s of
                          Rejected \<Rightarrow> (Response 500 (msg ''Server error during registration.''), s)
                        | Resolved (saved, s') \<Rightarrow>
                            (Response 201
                               (Some (json [(''message'', JStr ''Student registered successfully''),
                                            (''studentId'', get saved ''_id'')])), s'))))"

definition correctTeacher :: doc where
  "correctTeacher =
     [(''fullName'', JStr ''Mahmoud only''),
      (''code'', JStr ''HHDV/58HR''),
      (''phoneNumber'', JStr ''01050747978'')]"

text \<open>This handler has no \<^verbatim>\<open>try\<close>: a rejected \<^verbatim>\<open>await\<close> leaves it uncaught.\<close>

definition post_auth_teacher_login :: handler where
  "post_auth_teacher_login e req s =
     (let name = body_field req ''name'';
          code = body_field req ''code'';
          phone = body_field req ''phone''
      in if name = get correctTeacher ''fullName'' \<and> code = get correctTeacher ''code''
            \<and> phone = get correctTeacher ''phoneNumber''
         then
           (case findOne e Teacher (Field ''teacherCode'' code) s of
              Rejected \<Rightarrow> (Unhandled, s)
            | Resolved (Some teacher) \<Rightarrow>
                (Response 200
                   (Some (json [(''message'', JStr ''Teacher login successful''),
                                (''user'', json [(''id'', get teacher ''_id''),
                                                 (''name'', get teacher ''fullName''),
                                                 (''type'', JStr ''teacher'')])])), s)
            | Resolved None \<Rightarrow>
                (case bcrypt_hash e (JStr ''teacher_default_password'') of
                   Rejected \<Rightarrow> (Unhandled, s)
                 | Resolved hashed \<Rightarrow>
                     (case save e Teacher
                             (construct e Teacher
                                [(''fullName'', name),
                                 (''teacherCode'', code),
                                 (''phoneNumber'', phone),
                                 (''password'', JStr hashed),
                                 (''type'', JStr ''teacher'')]) s of
                        Rejected \<Rightarrow> (Unhandled, s)
                      | Resolved (teacher, s') \<Rightarrow>
                          (Response 200
                             (Some (json [(''message'', JStr ''Teacher login successful''),
                                          (''user'', json [(''id'', get teacher ''_id''),
                                                           (''name'', get teacher ''fullName''),
                                                           (''type'', JStr ''teacher'')])])), s'))))
         else (Response 401 (msg ''Invalid teacher credentials.''), s))"

definition post_auth_support_login :: handler where
  "post_auth_support_login e req s =
     (let name = body_field req ''name'';
          code = body_field req ''code''
      in case findOne e SupportStaff (AllOf [Field ''fullName'' name, Field ''supportCode'' code]) s of
           Rejected \<Rightarrow> (Response 500 (msg ''Server error during support login.''), s)
         | Resolved None \<Rightarrow> (Response 401 (msg ''Invalid support credentials.''), s)
         | Resolved (Some found) \<Rightarrow>
             (let supportUser =
                    AList.update ''lastActivity'' (JDate (stamp e ''lastActivity''))
                      (AList.update ''isOnline'' (JBool True) found)
              in case save_existing e SupportStaff supportUser s of
                   Rejected \<Rightarrow> (Response 500 (msg ''Server error during support login.''), s)
                 | Resolved s' \<Rightarrow>
                     (Response 200
                        (Some (json [(''message'', JStr ''Support login successful''),
                                     (''user'', json [(''id'', get supportUser ''_id''),
                                                      (''name'', get supportUser ''fullName''),
                                                      (''type'', JStr ''support'')])])), s')))"

subsection \<open>Lessons\<close>

definition post_lessons :: handler where
  "post_lessons e req s =
     (case save e Lesson (construct e Lesson (body req)) s of
        Rejected \<Rightarrow> (Response 500 (msg ''Error saving lesson to database.''), s)
      | Resolved (newLesson, s') \<Rightarrow>
          (Response 201
             (Some (json [(''message'', JStr ''Lesson saved successfully''),
                          (''lesson'', JObj newLesson)])), s'))"

definition get_lessons :: handler where
  "get_lessons e req s =
     (case find_docs e Lesson [] s of
        Rejected \<Rightarrow> (Response 500 (msg ''Error fetching lessons from database.''), s)
      | Resolved lessons \<Rightarrow> (Response 200 (Some (JArr (map JObj lessons))), s))"

definition put_lessons :: handler where
  "put_lessons e req s =
     (case findByIdAndUpdate e Lesson (params_id req) (body req) s of
        Rejected \<Rightarrow> (Response 500 (msg ''Error updating lesson in database.''), s)
      | Resolved (None, s') \<Rightarrow> (Response 404 (msg ''Lesson not found.''), s')
      | Resolved (Some updatedLesson, s') \<Rightarrow>
          (Response 200
             (Some (json [(''message'', JStr ''Lesson updated successfully''),
                          (''lesson'', JObj updatedLesson)])), s'))"

definition delete_lessons :: handler where
  "delete_lessons e req s =
     (case findByIdAndDelete e Lesson (params_id req) s of
        Rejected \<Rightarrow> (Response 500 (msg ''Error deleting lesson from database.''), s)
      | Resolved (None, s') \<Rightarrow> (Response 404 (msg ''Lesson not found.''), s')
      | Resolved (Some deletedLesson, s') \<Rightarrow> (Response 204 None, s'))"

subsection \<open>Subscriptions\<close>

definition post_subscriptions :: handler where
  "post_subscriptions e req s =
     (case save e Subscription (construct e Subscription (body req)) s of
        Rejected \<Rightarrow> (Response 500 (msg ''Error creating subscription in database.''), s)
      | Resolved (newSubscription, s') \<Rightarrow>
          (Response 201
             (Some (json [(''message'', JStr ''Subscription created successfully''),
                          (''subscription'', JObj newSubscription)])), s'))"

definition get_subscriptions :: handler where
  "get_subscriptions e req s =
     (case find_docs e Subscription [] s of
        Rejected \<Rightarrow> (Response 500 (msg ''Error fetching subscriptions from database.''), s)
      | Resolved subscriptions \<Rightarrow> (Response 200 (Some (JArr (map JObj subscriptions))), s))"

definition put_subscriptions :: handler where
  "put_subscriptions e req s =
     (case findByIdAndUpdate e Subscription (params_id req) (body req) s of
        Rejected \<Rightarrow> (Response 500 (msg ''Error updating subscription in database.''), s)
      | Resolved (None, s') \<Rightarrow> (Response 404 (msg ''Subscription not found.''), s')
      | Resolved (Some updatedSubscription, s') \<Rightarrow>
          (Response 200
             (Some (json [(''message'', JStr ''Subscription updated successfully''),
                          (''subscription'', JObj updatedSubscription)])), s'))"

definition delete_subscriptions :: handler where
  "delete_subscriptions e req s =
     (case findByIdAndDelete e Subscription (params_id req) s of
        Rejected \<Rightarrow> (Response 500 (msg ''Error deleting subscription from database.''), s)
      | Resolved (None, s') \<Rightarrow> (Response 404 (msg ''Subscription not found.''), s')
      | Resolved (Some deletedSubscription, s') \<Rightarrow> (Response 204 None, s'))"

subsection \<open>General messages\<close>

definition post_general_messages :: handler where
  "post_general_messages e req s =
     (case save e GeneralMessage (construct e GeneralMessage (body req)) s of
        Rejected \<Rightarrow> (Response 500 (msg ''Error sending general message to database.''), s)
      | Resolved (newGeneralMessage, s') \<Rightarrow>
          (Response 201
             (Some (json [(''message'', JStr ''General message sent successfully''),
                          (''generalMessage'', JObj newGeneralMessage)])), s'))"

definition get_general_messages :: handler where
  "get_general_messages e req s =
     (case find_docs e GeneralMessage [] s of
        Rejected \<Rightarrow> (Response 500 (msg ''Error fetching general messages from database.''), s)
      | Resolved generalMessages \<Rightarrow> (Response 200 (Some (JArr (map JObj generalMessages))), s))"

definition delete_general_messages :: handler where
  "delete_general_messages e req s =
     (case findByIdAndDelete e GeneralMessage (params_id req) s of
        Rejected \<Rightarrow> (Response 500 (msg ''Error deleting general message from database.''), s)
      | Resolved (None, s') \<Rightarrow> (Response 404 (msg ''General message not found.''), s')
      | Resolved (Some deletedMessage, s') \<Rightarrow> (Response 204 None, s'))"

subsection \<open>Books\<close>

definition post_books :: handler where
  "post_books e req s =
     (case save e Book (construct e Book (body req)) s of
        Rejected \<Rightarrow> (Response 500 (msg ''Error adding book to database.''), s)
      | Resolved (newBook, s') \<Rightarrow>
          (Response 201
             (Some (json [(''message'', JStr ''Book added successfully''),
                          (''book'', JObj newBook)])), s'))"

definition get_books :: handler where
  "get_books e req s =
     (case find_docs e Book [] s of
        Rejected \<Rightarrow> (Response 500 (msg ''Error fetching books from database.''), s)
      | Resolved books \<Rightarrow> (Response 200 (Some (JArr (map JObj books))), s))"

definition put_books :: handler where
  "put_books e req s =
     (case findByIdAndUpdate e Book (params_id req) (body req) s of
        Rejected \<Rightarrow> (Response 500 (msg ''Error updating book in database.''), s)
      | Resolved (None, s') \<Rightarrow> (Response 404 (msg ''Book not found.''), s')
      | Resolved (Some updatedBook, s') \<Rightarrow>
          (Response 200
             (Some (json [(''message'', JStr ''Book updated successfully''),
                          (''book'', JObj updatedBook)])), s'))"

definition delete_books :: handler where
  "delete_books e req s =
     (case findByIdAndDelete e Book (params_id req) s of
        Rejected \<Rightarrow> (Response 500 (msg ''Error deleting book from database.''), s)
      | Resolved (None, s') \<Rightarrow> (Response 404 (msg ''Book not found.''), s')
      | Resolved (Some deletedBook, s') \<Rightarrow> (Response 204 None, s'))"

subsection \<open>Payment methods\<close>

definition post_payment_methods :: handler where
  "post_payment_methods e req s =
     (let name = body_field req ''name'';
          number = body_field req ''number'';
          password = body_field req ''password''
      in case bcrypt_hash e password of
           Rejected \<Rightarrow> (Response 500 (msg ''Error adding payment method to database.''), s)
         | Resolved hashedPassword \<Rightarrow>
             (case save e PaymentMethod
                     (construct e PaymentMethod
                        [(''name'', name), (''number'', number), (''password'', JStr hashedPassword)]) s of
                Rejected \<Rightarrow> (Response 500 (msg ''Error adding payment method to database.''), s)
              | Resolved (newMethod, s') \<Rightarrow>
                  (Response 201
                     (Some (json [(''message'', JStr ''Payment method added successfully''),
                                  (''method'', JObj newMethod)])), s')))"

definition get_payment_methods :: handler where
  "get_payment_methods e req s =
     (case find_docs e PaymentMethod [''password''] s of
        Rejected \<Rightarrow> (Response 500 (msg ''Error fetching payment methods from database.''), s)
      | Resolved methods \<Rightarrow> (Response 200 (Some (JArr (map JObj methods))), s))"

definition delete_payment_methods :: handler where
  "delete_payment_methods e req s =
     (let id = params_id req;
          password = body_field req ''password''
      in case findById e PaymentMethod id s of
           Rejected \<Rightarrow> (Response 500 (msg ''Error deleting payment method from database.''), s)
         | Resolved None \<Rightarrow> (Response 404 (msg ''Payment method not found.''), s)
         | Resolved (Some method) \<Rightarrow>
             (case bcrypt_compare e password (get method ''password'') of
                Rejected \<Rightarrow> (Response 500 (msg ''Error deleting payment method from database.''), s)
              | Resolved isMatch \<Rightarrow>
                  (if \<not> isMatch then (Response 401 (msg ''Incorrect control password.''), s)
                   else case findByIdAndDelete e PaymentMethod id s of
                          Rejected \<Rightarrow>
                            (Response 500 (msg ''Error deleting payment method from database.''), s)
                        | Resolved (deleted, s') \<Rightarrow> (Response 204 None, s'))))"

subsection \<open>The routes\<close>

datatype route =
    GET_health
  | POST_auth_register | POST_auth_teacher_login | POST_auth_support_login
  | POST_lessons | GET_lessons | PUT_lessons | DELETE_lessons
  | POST_subscriptions | GET_subscriptions | PUT_subscriptions | DELETE_subscriptions
  | POST_general_messages | GET_general_messages | DELETE_general_messages
  | POST_books | GET_books | PUT_books | DELETE_books
  | POST_payment_methods | GET_payment_methods | DELETE_payment_methods

fun app :: "route \<Rightarrow> handler" where
  "app GET_health = get_health"
| "app POST_auth_register = post_auth_register"
| "app POST_auth_teacher_login = post_auth_teacher_login"
| "app POST_auth_support_login = post_auth_support_login"
| "app POST_lessons = post_lessons"
| "app GET_lessons = get_lessons"
| "app PUT_lessons = put_lessons"
| "app DELETE_lessons = delete_lessons"
| "app POST_subscriptions = post_subscriptions"
| "app GET_subscriptions = get_subscriptions"
| "app PUT_subscriptions = put_subscriptions"
| "app DELETE_subscriptions = delete_subscriptions"
| "app POST_general_messages = post_general_messages"
| "app GET_general_messages = get_general_messages"
| "app DELETE_general_messages = delete_general_messages"
| "app POST_books = post_books"
| "app GET_books = get_books"
| "app PUT_books = put_books"
| "app DELETE_books = delete_books"
| "app POST_payment_methods = post_payment_methods"
| "app GET_payment_methods = get_payment_methods"
| "app DELETE_payment_methods = delete_payment_methods"

subsection \<open>A concrete environment and store\<close>

text \<open>
  An environment in which no store operation fails, for evaluating the handlers on concrete
  requests. Its bcrypt stand-in hashes to the salt followed by the password.
\<close>

definition demo_env :: env where
  "demo_env =
     \<lparr>fails = (\<lambda>op. False),
      fresh_id = ''64f000000000000000000001'',
      stamp = (\<lambda>k. 1000),
      coerce = (\<lambda>t v. None),
      operator_update = (\<lambda>d u. None),
      query_operator = (\<lambda>op a. None),
      salt = ''$2a$10$'',
      hashpw = (\<lambda>slt p. slt @ p),
      comparepw = (\<lambda>p h. h = ''$2a$10$'' @ p)\<rparr>"

definition empty_db :: db where
  "empty_db = (\<lambda>c. [])"

text \<open>A store with one document of each kind, each as the handlers above write them.\<close>

definition demo_method :: doc where
  "demo_method =
     [(''_id'', JStr ''64f0000000000000000000a1''),
      (''name'', JStr ''Vodafone Cash''),
      (''number'', JStr ''01000000000''),
      (''password'', JStr ''$2a$10$secret''),
      (''createdAt'', JDate 900),
      (''__v'', JNum 0)]"

definition demo_support :: doc where
  "demo_support =
     [(''_id'', JStr ''64f0000000000000000000b1''),
      (''fullName'', JStr ''Mona Adel''),
      (''password'', JStr ''$2a$10$support''),
      (''type'', JStr ''support''),
      (''__t'', JStr ''support''),
      (''createdAt'', JDate 800),
      (''lastActivity'', JDate 800),
      (''supportCode'', JStr ''SUP-1''),
      (''isOnline'', JBool False),
      (''__v'', JNum 0)]"

definition demo_lesson :: doc where
  "demo_lesson =
     [(''_id'', JStr ''64f0000000000000000000c1''),
      (''title'', JStr ''Algebra I''),
      (''price'', JNum 100),
      (''description'', JStr ''Intro''),
      (''grade'', JStr ''first''),
      (''examQuestions'', JArr []),
      (''isActive'', JBool True),
      (''createdAt'', JDate 900),
      (''updatedAt'', JDate 900),
      (''__v'', JNum 0)]"

definition demo_subscription :: doc where
  "demo_subscription =
     [(''_id'', JStr ''64f0000000000000000000d1''),
      (''name'', JStr ''Term 1''),
      (''description'', JStr ''All lessons''),
      (''price'', JNum 500),
      (''duration'', JNum 90),
      (''includedLessons'', JArr []),
      (''isActive'', JBool True),
      (''createdAt'', JDate 900),
      (''__v'', JNum 0)]"

definition demo_book :: doc where
  "demo_book =
     [(''_id'', JStr ''64f0000000000000000000e1''),
      (''name'', JStr ''Workbook''),
      (''description'', JStr ''Exercises''),
      (''price'', JNum 60),
      (''grade'', JStr ''second''),
      (''availability'', JStr ''available''),
      (''createdAt'', JDate 900),
      (''__v'', JNum 0)]"

definition demo_message :: doc where
  "demo_message =
     [(''_id'', JStr ''64f0000000000000000000f1''),
      (''target'', JStr ''all''),
      (''title'', JStr ''Welcome''),
      (''content'', JStr ''Hello''),
      (''duration'', JNum 7),
      (''priority'', JStr ''normal''),
      (''createdAt'', JDate 900),
      (''teacherId'', JStr ''64f0000000000000000000b9''),
      (''__v'', JNum 0)]"

fun demo_db :: db where
  "demo_db Users = [demo_support]"
| "demo_db Lessons = [demo_lesson]"
| "demo_db Subscriptions = [demo_subscription]"
| "demo_db PaymentMethods = [demo_method]"
| "demo_db GeneralMessages = [demo_message]"
| "demo_db Books = [demo_book]"

subsection \<open>Stores that differ in the stored password values only\<close>

text \<open>
  \<open>redact d\<close> blanks the value kept under \<open>password\<close>: two lists of documents with the same
  redactions agree on every field but the value of \<open>password\<close>.
\<close>

definition redact :: "doc \<Rightarrow> doc" where
  "redact d = map (\<lambda>(k, v). if k = ''password'' then (k, JNull) else (k, v)) d"

subsection \<open>Predicates of the statements below\<close>

text \<open>The string \<open>i\<close> is written as an ObjectId is: 24 hexadecimal digits.\<close>

definition object_id_string :: "string \<Rightarrow> bool" where
  "object_id_string i = (length i = 24 \<and> list_all is_hex i)"

text \<open>The request submits the name, code and phone of the one teacher the service knows.\<close>

definition submits_hardcoded_triple :: "request \<Rightarrow> bool" where
  "submits_hardcoded_triple req =
     (body_field req ''name'' = JStr ''Mahmoud only''
      \<and> body_field req ''code'' = JStr ''HHDV/58HR''
      \<and> body_field req ''phone'' = JStr ''01050747978'')"

text \<open>A Teacher document with the teacher code of that triple.\<close>

definition teacher_with_code :: "doc \<Rightarrow> bool" where
  "teacher_with_code t =
     (map_of t ''__t'' = Some (JStr ''teacher'') \<and> map_of t ''teacherCode'' = Some (JStr ''HHDV/58HR''))"

text \<open>The Teacher document that the first login with the triple creates.\<close>

definition new_teacher :: "env \<Rightarrow> doc" where
  "new_teacher e =
     [(''_id'', JStr (fresh_id e)),
      (''fullName'', JStr ''Mahmoud only''),
      (''password'', JStr (hashpw e (salt e) ''teacher_default_password'')),
      (''type'', JStr ''teacher''),
      (''createdAt'', JDate (stamp e ''createdAt'')),
      (''lastActivity'', JDate (stamp e ''lastActivity'')),
      (''teacherCode'', JStr ''HHDV/58HR''),
      (''phoneNumber'', JStr ''01050747978''),
      (''__t'', JStr ''teacher''),
      (''__v'', JNum 0)]"

subsection \<open>Predicates of the registration and login statements\<close>











subsection \<open>Predicates of the statements on deletion by identifier\<close>


subsection \<open>Predicates of the statements on update by identifier\<close>




section \<open>Basic facts about the store\<close>

lemmas eval_defs =
  Let_def body_field_def get_def json_def msg_def doc_id_def is_a_def has_id_def oid_def
  castObjectId_def is_hex_def hex_lower_def object_id_string_def discriminatorKey_def
  bcrypt_hash_def bcrypt_compare_def cast_def default_of_def construct_path_def construct_def
  path_ok_def validate_def paths_of_def
  is_operator_def operator_object_def members_def eq_value_def cast_operand_def
  compile_operator_def compile_field_def in_like_def elements_def special_key_def
  findOne_def find_docs_def findById_def save_def save_existing_def
  apply_update_def findByIdAndUpdate_def findByIdAndDelete_def exclude_def
  Student_def Teacher_def SupportStaff_def Lesson_def Subscription_def PaymentMethod_def
  GeneralMessage_def Book_def
  userSchema_def studentSchema_def teacherSchema_def supportStaffSchema_def lessonSchema_def
  subscriptionSchema_def paymentMethodSchema_def generalMessageSchema_def bookSchema_def
  demo_env_def empty_db_def demo_method_def demo_support_def demo_lesson_def
  demo_subscription_def demo_book_def demo_message_def

lemma model_coll [simp]:
  "m_coll Student = Users" "m_coll Teacher = Users" "m_coll SupportStaff = Users"
  "m_coll Lesson = Lessons" "m_coll Subscription = Subscriptions"
  "m_coll PaymentMethod = PaymentMethods" "m_coll GeneralMessage = GeneralMessages"
  "m_coll Book = Books"
  by (simp_all add: Student_def Teacher_def SupportStaff_def Lesson_def Subscription_def
        PaymentMethod_def GeneralMessage_def Book_def)

lemma model_discr [simp]:
  "m_discr Student = Some ''student''" "m_discr Teacher = Some ''teacher''"
  "m_discr SupportStaff = Some ''support''"
  "m_discr Lesson = None" "m_discr Subscription = None"
  "m_discr PaymentMethod = None" "m_discr GeneralMessage = None"
  "m_discr Book = None"
  by (simp_all add: Student_def Teacher_def SupportStaff_def Lesson_def Subscription_def
        PaymentMethod_def GeneralMessage_def Book_def)



lemma has_id_plain: "m_discr m = None \<Longrightarrow> has_id e m j = (\<lambda>d. oid e d = Some j)"
  by (simp add: has_id_def is_a_def fun_eq_iff)







section \<open>Payment methods\<close>

text \<open>
  C10. A \<^verbatim>\<open>DELETE /api/payment-methods/:id\<close> whose body has no \<open>password\<close>, for an identifier
  that some stored payment method has, is answered with 500 and the store is left as it was:
  either the lookup itself is rejected, or \<^verbatim>\<open>bcrypt.compare(undefined, hash)\<close> rejects and
  the \<^verbatim>\<open>catch\<close> block answers. The answer is neither 400 nor 401.
\<close>

theorem delete_payment_method_without_password:
  assumes "map_of (body req) ''password'' = None"
      and "\<exists>d \<in> set (s PaymentMethods). doc_id d = Some (JStr (params_id req))"
    shows "delete_payment_methods e req s =
             (Response 500 (msg ''Error deleting payment method from database.''), s)"
proof (cases "castObjectId e (params_id req)")
  case None
  then show ?thesis
    by (simp add: delete_payment_methods_def Let_def findById_def)
next
  case (Some j)
  have pw: "body_field req ''password'' = JUndefined"
    using assms(1) by (simp add: body_field_def get_def)
  from assms(2) obtain d where d: "d \<in> set (s PaymentMethods)" "doc_id d = Some (JStr (params_id req))"
    by blast
  then have "oid e d = Some j"
    using Some by (simp add: oid_def)
  with d(1) have "List.find (has_id e PaymentMethod j) (s PaymentMethods) \<noteq> None"
    by (auto simp: find_None_iff has_id_plain)
  then obtain d' where "List.find (has_id e PaymentMethod j) (s PaymentMethods) = Some d'"
    by blast
  then show ?thesis
    using Some by (simp add: delete_payment_methods_def Let_def findById_def pw bcrypt_compare_def)
qed

theorem delete_payment_method_without_password_witness:
  "delete_payment_methods demo_env \<lparr>params_id = ''64f0000000000000000000a1'', body = []\<rparr> demo_db =
     (Response 500 (msg ''Error deleting payment method from database.''), demo_db)"
  using delete_payment_method_without_password
          [where req = "\<lparr>params_id = ''64f0000000000000000000a1'', body = []\<rparr>"
             and s = demo_db and e = demo_env]
  by (simp add: demo_method_def doc_id_def)




lemma construct_PaymentMethod_password:
  "construct e PaymentMethod [(''name'', n), (''number'', m), (''password'', JStr h)] = Some d
   \<Longrightarrow> map_of d ''password'' = Some (JStr h)"
  by (auto simp: construct_def paths_of_def PaymentMethod_def paymentMethodSchema_def
        construct_path_def default_of_def cast_def split: option.splits if_splits)

text \<open>
  C9. Whenever \<^verbatim>\<open>POST /api/payment-methods\<close> answers 201, the submitted password is a string
  \<open>p\<close>, the body of the answer is the message and, under \<open>method\<close>, the created document
  \<open>d\<close>, the \<open>password\<close> field of \<open>d\<close> holds the bcrypt hash of \<open>p\<close>, and \<open>d\<close> is the
  document that was added to the store: the answer carries the stored hash.
\<close>

theorem created_payment_method_exposes_hash:
  assumes "fst (post_payment_methods e req s) = Response 201 b"
  shows "\<exists>p d. body_field req ''password'' = JStr p
           \<and> b = Some (JObj [(''message'', JStr ''Payment method added successfully''), (''method'', JObj d)])
           \<and> map_of d ''password'' = Some (JStr (hashpw e (salt e) p))
           \<and> snd (post_payment_methods e req s) = s(PaymentMethods := s PaymentMethods @ [d])"
proof -
  obtain p where p: "body_field req ''password'' = JStr p"
    using assms by (cases "body_field req ''password''")
      (simp_all add: post_payment_methods_def Let_def bcrypt_hash_def msg_def)
  let ?dr = "construct e PaymentMethod [(''name'', body_field req ''name''),
               (''number'', body_field req ''number''), (''password'', JStr (hashpw e (salt e) p))]"
  obtain d s' where sv: "save e PaymentMethod ?dr s = Resolved (d, s')"
    using assms p by (cases "save e PaymentMethod ?dr s")
      (auto simp add: post_payment_methods_def Let_def bcrypt_hash_def msg_def)
  then have "?dr = Some d" and s': "s' = s(PaymentMethods := s PaymentMethods @ [d])"
    by (auto simp: save_def split: if_splits option.splits)
  then have pw: "map_of d ''password'' = Some (JStr (hashpw e (salt e) p))"
    by (simp add: construct_PaymentMethod_password)
  have "post_payment_methods e req s =
          (Response 201 (Some (JObj [(''message'', JStr ''Payment method added successfully''),
                                     (''method'', JObj d)])), s')"
    using p sv by (simp add: post_payment_methods_def Let_def bcrypt_hash_def json_def)
  then show ?thesis
    using assms p pw s' by auto
qed

theorem created_payment_method_exposes_hash_witness:
  "\<exists>p d. body_field \<lparr>params_id = [], body = [(''name'', JStr ''Vodafone Cash''),
                                               (''number'', JStr ''01000000000''),
                                               (''password'', JStr ''secret'')]\<rparr> ''password'' = JStr p
     \<and> Some (JObj [(''message'', JStr ''Payment method added successfully''),
                   (''method'', JObj [(''_id'', JStr ''64f000000000000000000001''),
                                      (''name'', JStr ''Vodafone Cash''),
                                      (''number'', JStr ''01000000000''),
                                      (''password'', JStr ''$2a$10$secret''),
                                      (''createdAt'', JDate 1000),
                                      (''__v'', JNum 0)])])
         = Some (JObj [(''message'', JStr ''Payment method added successfully''), (''method'', JObj d)])
     \<and> map_of d ''password'' = Some (JStr (hashpw demo_env (salt demo_env) p))
     \<and> snd (post_payment_methods demo_env
               \<lparr>params_id = [], body = [(''name'', JStr ''Vodafone Cash''),
                                        (''number'', JStr ''01000000000''),
                                        (''password'', JStr ''secret'')]\<rparr> empty_db)
         = empty_db(PaymentMethods := empty_db PaymentMethods @ [d])"
  by (rule created_payment_method_exposes_hash) (simp add: post_payment_methods_def eval_defs)

lemma exclude_no_key: "k \<in> set ks \<Longrightarrow> map_of (exclude ks d) k = None"
  by (induction d) (auto simp: exclude_def)

lemma exclude_redact: "exclude [''password''] (redact d) = exclude [''password''] d"
  by (induction d) (auto simp: exclude_def redact_def)

lemma map_exclude_redact:
  assumes "map redact xs = map redact ys"
  shows "map (exclude [''password'']) xs = map (exclude [''password'']) ys"
proof -
  have "map (exclude [''password'']) zs = map (exclude [''password'']) (map redact zs)" for zs
    by (simp add: exclude_redact)
  then show ?thesis using assms by metis
qed

text \<open>
  C7. Whenever \<^verbatim>\<open>GET /api/payment-methods\<close> answers 200, the body is an array of documents
  none of which has a \<open>password\<close> field. And the answer does not depend on the stored hashes:
  two stores whose payment methods differ in the values kept under \<open>password\<close> only are
  answered alike.
\<close>

theorem payment_method_listing_hides_password:
  "(\<forall>b. fst (get_payment_methods e req s) = Response 200 b \<longrightarrow>
        (\<exists>ds. b = Some (JArr (map JObj ds)) \<and> (\<forall>d \<in> set ds. map_of d ''password'' = None)))
   \<and> (map redact (s PaymentMethods) = map redact (s' PaymentMethods) \<longrightarrow>
        fst (get_payment_methods e req s) = fst (get_payment_methods e req s'))"
proof (intro conjI allI impI)
  fix b assume "fst (get_payment_methods e req s) = Response 200 b"
  then have "b = Some (JArr (map JObj (map (exclude [''password'']) (s PaymentMethods))))"
    by (auto simp: get_payment_methods_def find_docs_def is_a_def msg_def split: if_splits)
  moreover have "\<forall>d \<in> set (map (exclude [''password'']) (s PaymentMethods)). map_of d ''password'' = None"
    by (auto simp: exclude_no_key)
  ultimately show "\<exists>ds. b = Some (JArr (map JObj ds)) \<and> (\<forall>d \<in> set ds. map_of d ''password'' = None)"
    by blast
next
  assume "map redact (s PaymentMethods) = map redact (s' PaymentMethods)"
  then have "map (exclude [''password'']) (s PaymentMethods) = map (exclude [''password'']) (s' PaymentMethods)"
    by (rule map_exclude_redact)
  then show "fst (get_payment_methods e req s) = fst (get_payment_methods e req s')"
    by (simp add: get_payment_methods_def find_docs_def is_a_def)
qed

theorem payment_method_listing_hides_password_witness:
  "fst (get_payment_methods demo_env \<lparr>params_id = [], body = []\<rparr> demo_db)
     = Response 200
         (Some (JArr [JObj [(''_id'', JStr ''64f0000000000000000000a1''),
                            (''name'', JStr ''Vodafone Cash''),
                            (''number'', JStr ''01000000000''),
                            (''createdAt'', JDate 900),
                            (''__v'', JNum 0)]]))
   \<and> fst (get_payment_methods demo_env \<lparr>params_id = [], body = []\<rparr>
            (demo_db(PaymentMethods := [AList.update ''password'' (JStr ''$2a$10$other'') demo_method])))
     = fst (get_payment_methods demo_env \<lparr>params_id = [], body = []\<rparr> demo_db)"
proof -
  let ?req = "\<lparr>params_id = [], body = []\<rparr>"
  let ?s = "demo_db(PaymentMethods := [AList.update ''password'' (JStr ''$2a$10$other'') demo_method])"
  have h: "fst (get_payment_methods demo_env ?req demo_db)
     = Response 200
         (Some (JArr [JObj [(''_id'', JStr ''64f0000000000000000000a1''),
                            (''name'', JStr ''Vodafone Cash''),
                            (''number'', JStr ''01000000000''),
                            (''createdAt'', JDate 900),
                            (''__v'', JNum 0)]]))"
    by (simp add: get_payment_methods_def eval_defs)
  have r: "map redact (?s PaymentMethods) = map redact (demo_db PaymentMethods)"
    by (simp add: redact_def demo_method_def)
  from payment_method_listing_hides_password[of demo_env ?req ?s demo_db] r
  have "fst (get_payment_methods demo_env ?req ?s) = fst (get_payment_methods demo_env ?req demo_db)"
    by blast
  with h show ?thesis by simp
qed

section \<open>Rejected store operations\<close>

text \<open>
  Every handler but the teacher login wraps its body in \<^verbatim>\<open>try\<close>/\<^verbatim>\<open>catch\<close>: whatever the
  store and bcrypt do, it sends a response.
\<close>

lemma handlers_with_catch_respond:
  "r \<noteq> POST_auth_teacher_login \<Longrightarrow> fst (app r e req s) \<noteq> Unhandled"
  by (cases r)
     (simp_all add: get_health_def post_auth_register_def post_auth_support_login_def
        post_lessons_def get_lessons_def put_lessons_def delete_lessons_def
        post_subscriptions_def get_subscriptions_def put_subscriptions_def delete_subscriptions_def
        post_general_messages_def get_general_messages_def delete_general_messages_def
        post_books_def get_books_def put_books_def delete_books_def
        post_payment_methods_def get_payment_methods_def delete_payment_methods_def
        Let_def split: promise.splits option.splits prod.splits)

lemma correctTeacher_fields:
  "get correctTeacher ''fullName'' = JStr ''Mahmoud only''"
  "get correctTeacher ''code'' = JStr ''HHDV/58HR''"
  "get correctTeacher ''phoneNumber'' = JStr ''01050747978''"
  by (simp_all add: correctTeacher_def get_def)

text \<open>
  A filter \<^verbatim>\<open>{ k: v }\<close> on a String path, for a string \<open>v\<close>, selects the documents whose
  field \<open>k\<close> is \<open>v\<close>.
\<close>

lemma compile_string_field:
  "type_of_path (paths_of m) k = Some TString \<Longrightarrow>
   compile_query e m (Field k (JStr v)) = Some (\<lambda>d. map_of d k = Some (JStr v))"
  by (simp add: compile_field_def operator_object_def in_like_def cast_operand_def cast_def eq_value_def)

lemma findOne_teacher:
  "\<not> fails e FindOne \<Longrightarrow>
   findOne e Teacher (Field ''teacherCode'' (JStr ''HHDV/58HR'')) s =
     Resolved (List.find teacher_with_code (s Users))"
proof -
  have "type_of_path (paths_of Teacher) ''teacherCode'' = Some TString"
    by (simp add: paths_of_def Teacher_def userSchema_def teacherSchema_def)
  then have "compile_query e Teacher (Field ''teacherCode'' (JStr ''HHDV/58HR''))
               = Some (\<lambda>d. map_of d ''teacherCode'' = Some (JStr ''HHDV/58HR''))"
    by (rule compile_string_field)
  moreover assume "\<not> fails e FindOne"
  ultimately show ?thesis
    by (simp add: findOne_def is_a_def discriminatorKey_def teacher_with_code_def [abs_def])
qed

text \<open>
  C4. The claim fails for \<^verbatim>\<open>POST /api/auth/teacher-login\<close>. When the hardcoded triple is
  submitted and the lookup of the Teacher document is rejected, or no Teacher document is
  there yet and the insert is rejected, the rejection leaves the handler uncaught: it sends
  no response, where every other handler answers 500.
\<close>

theorem teacher_login_rejection_unhandled:
  assumes "submits_hardcoded_triple req"
      and "fails e FindOne \<or> ((\<forall>t \<in> set (s Users). \<not> teacher_with_code t) \<and> fails e Save)"
    shows "post_auth_teacher_login e req s = (Unhandled, s)"
proof (cases "fails e FindOne")
  case True
  then show ?thesis
    using assms(1)
    by (simp add: post_auth_teacher_login_def submits_hardcoded_triple_def correctTeacher_fields
          Let_def findOne_def)
next
  case False
  with assms(2) have "List.find teacher_with_code (s Users) = None" and "fails e Save"
    by (simp_all add: find_None_iff)
  then show ?thesis
    using assms(1) False
    by (simp add: post_auth_teacher_login_def submits_hardcoded_triple_def correctTeacher_fields
          Let_def findOne_teacher bcrypt_hash_def save_def)
qed

theorem teacher_login_rejection_unhandled_witness:
  "post_auth_teacher_login (demo_env\<lparr>fails := (\<lambda>op. op = FindOne)\<rparr>)
     \<lparr>params_id = [], body = [(''name'', JStr ''Mahmoud only''), (''code'', JStr ''HHDV/58HR''),
                              (''phone'', JStr ''01050747978'')]\<rparr> demo_db
   = (Unhandled, demo_db)"
  by (rule teacher_login_rejection_unhandled)
     (simp_all add: submits_hardcoded_triple_def body_field_def get_def demo_env_def)

section \<open>Teacher login\<close>

lemma construct_Teacher:
  "construct e Teacher
     [(''fullName'', JStr n), (''teacherCode'', JStr c), (''phoneNumber'', JStr ph),
      (''password'', JStr h), (''type'', JStr ''teacher'')]
   = Some [(''_id'', JStr (fresh_id e)), (''fullName'', JStr n), (''password'', JStr h),
           (''type'', JStr ''teacher''), (''createdAt'', JDate (stamp e ''createdAt'')),
           (''lastActivity'', JDate (stamp e ''lastActivity'')), (''teacherCode'', JStr c),
           (''phoneNumber'', JStr ph), (''__t'', JStr ''teacher''), (''__v'', JNum 0)]"
  by (simp add: construct_def paths_of_def Teacher_def userSchema_def teacherSchema_def
        construct_path_def default_of_def cast_def discriminatorKey_def)

lemma validate_Teacher:
  "validate Teacher
     [(''_id'', JStr i), (''fullName'', JStr n), (''password'', JStr h),
      (''type'', JStr ''teacher''), (''createdAt'', JDate t1),
      (''lastActivity'', JDate t2), (''teacherCode'', JStr c),
      (''phoneNumber'', JStr ph), (''__t'', JStr ''teacher''), (''__v'', JNum 0)]
   = (n \<noteq> [] \<and> h \<noteq> [] \<and> c \<noteq> [] \<and> ph \<noteq> [])"
  by (auto simp add: validate_def path_ok_def paths_of_def Teacher_def userSchema_def
        teacherSchema_def discriminatorKey_def)

lemma teacher_login_mismatch:
  "\<not> submits_hardcoded_triple req \<Longrightarrow>
   post_auth_teacher_login e req s = (Response 401 (msg ''Invalid teacher credentials.''), s)"
  by (auto simp: post_auth_teacher_login_def submits_hardcoded_triple_def correctTeacher_fields Let_def)

lemma teacher_login_existing:
  assumes "submits_hardcoded_triple req" "\<not> fails e FindOne" "\<exists>t \<in> set (s Users). teacher_with_code t"
  shows "status_of (fst (post_auth_teacher_login e req s)) = Some 200
         \<and> snd (post_auth_teacher_login e req s) = s"
proof -
  from assms(3) obtain t where "List.find teacher_with_code (s Users) = Some t"
    by (cases "List.find teacher_with_code (s Users)") (auto simp: find_None_iff)
  then show ?thesis
    using assms(1,2)
    by (simp add: post_auth_teacher_login_def submits_hardcoded_triple_def correctTeacher_fields
          Let_def findOne_teacher)
qed

lemma teacher_login_first:
  assumes "submits_hardcoded_triple req" "\<not> fails e FindOne" "\<not> fails e Save"
      and "\<forall>t \<in> set (s Users). \<not> teacher_with_code t"
      and "Some (JStr (fresh_id e)) \<notin> doc_id ` set (s Users)"
      and "hashpw e (salt e) ''teacher_default_password'' \<noteq> []"
  shows "status_of (fst (post_auth_teacher_login e req s)) = Some 200
         \<and> snd (post_auth_teacher_login e req s) = s(Users := s Users @ [new_teacher e])"
proof -
  from assms(4) have "List.find teacher_with_code (s Users) = None"
    by (simp add: find_None_iff)
  then show ?thesis
    using assms(1,2,3,5,6)
    by (simp add: post_auth_teacher_login_def submits_hardcoded_triple_def correctTeacher_fields
          Let_def findOne_teacher bcrypt_hash_def construct_Teacher save_def
          validate_Teacher doc_id_def new_teacher_def)
qed

text \<open>
  C2. \<^verbatim>\<open>POST /api/auth/teacher-login\<close>: a 200 is sent only for the hardcoded triple; a
  request that differs from it in any of the three members is answered with 401 and the
  store is left as it was. For the triple, when the store rejects nothing: if a Teacher
  document with that teacher code exists, the answer is 200 and the store is left as it was;
  if none exists (and the generated identifier is new and the bcrypt hash of the placeholder
  password is not empty), the answer is 200 and exactly one document is added, the Teacher
  document of the triple. A Teacher document is one whose discriminator key \<open>__t\<close> is
  \<open>teacher\<close>.
\<close>

theorem teacher_login_contract:
  "(status_of (fst (post_auth_teacher_login e req s)) = Some 200 \<longrightarrow> submits_hardcoded_triple req)
   \<and> (\<not> submits_hardcoded_triple req \<longrightarrow>
        post_auth_teacher_login e req s = (Response 401 (msg ''Invalid teacher credentials.''), s))
   \<and> (submits_hardcoded_triple req \<and> \<not> fails e FindOne \<and> (\<exists>t \<in> set (s Users). teacher_with_code t) \<longrightarrow>
        status_of (fst (post_auth_teacher_login e req s)) = Some 200
        \<and> snd (post_auth_teacher_login e req s) = s)
   \<and> (submits_hardcoded_triple req \<and> \<not> fails e FindOne \<and> \<not> fails e Save
        \<and> (\<forall>t \<in> set (s Users). \<not> teacher_with_code t)
        \<and> Some (JStr (fresh_id e)) \<notin> doc_id ` set (s Users)
        \<and> hashpw e (salt e) ''teacher_default_password'' \<noteq> [] \<longrightarrow>
        status_of (fst (post_auth_teacher_login e req s)) = Some 200
        \<and> snd (post_auth_teacher_login e req s) = s(Users := s Users @ [new_teacher e]))"
proof (intro conjI impI)
  assume "status_of (fst (post_auth_teacher_login e req s)) = Some 200"
  then show "submits_hardcoded_triple req"
    using teacher_login_mismatch[of req e s] by (cases "submits_hardcoded_triple req") simp_all
qed (simp_all add: teacher_login_mismatch teacher_login_existing teacher_login_first)

theorem teacher_login_contract_witness:
  "post_auth_teacher_login demo_env
     \<lparr>params_id = [], body = [(''name'', JStr ''Mahmoud only''), (''code'', JStr ''HHDV/58HR''),
                              (''phone'', JStr ''01050747979'')]\<rparr> demo_db
     = (Response 401 (msg ''Invalid teacher credentials.''), demo_db)
   \<and> status_of (fst (post_auth_teacher_login demo_env
        \<lparr>params_id = [], body = [(''name'', JStr ''Mahmoud only''), (''code'', JStr ''HHDV/58HR''),
                                 (''phone'', JStr ''01050747978'')]\<rparr> demo_db)) = Some 200
   \<and> snd (post_auth_teacher_login demo_env
        \<lparr>params_id = [], body = [(''name'', JStr ''Mahmoud only''), (''code'', JStr ''HHDV/58HR''),
                                 (''phone'', JStr ''01050747978'')]\<rparr> demo_db)
     = demo_db(Users := [demo_support,
         [(''_id'', JStr ''64f000000000000000000001''),
          (''fullName'', JStr ''Mahmoud only''),
          (''password'', JStr ''$2a$10$teacher_default_password''),
          (''type'', JStr ''teacher''),
          (''createdAt'', JDate 1000),
          (''lastActivity'', JDate 1000),
          (''teacherCode'', JStr ''HHDV/58HR''),
          (''phoneNumber'', JStr ''01050747978''),
          (''__t'', JStr ''teacher''),
          (''__v'', JNum 0)]])
   \<and> snd (post_auth_teacher_login demo_env
        \<lparr>params_id = [], body = [(''name'', JStr ''Mahmoud only''), (''code'', JStr ''HHDV/58HR''),
                                 (''phone'', JStr ''01050747978'')]\<rparr>
        (demo_db(Users := [demo_support, new_teacher demo_env])))
     = demo_db(Users := [demo_support, new_teacher demo_env])"
  using teacher_login_contract
          [of demo_env
              "\<lparr>params_id = [], body = [(''name'', JStr ''Mahmoud only''), (''code'', JStr ''HHDV/58HR''),
                                       (''phone'', JStr ''01050747979'')]\<rparr>" demo_db]
        teacher_login_contract
          [of demo_env
              "\<lparr>params_id = [], body = [(''name'', JStr ''Mahmoud only''), (''code'', JStr ''HHDV/58HR''),
                                       (''phone'', JStr ''01050747978'')]\<rparr>" demo_db]
        teacher_login_contract
          [of demo_env
              "\<lparr>params_id = [], body = [(''name'', JStr ''Mahmoud only''), (''code'', JStr ''HHDV/58HR''),
                                       (''phone'', JStr ''01050747978'')]\<rparr>"
              "demo_db(Users := [demo_support, new_teacher demo_env])"]
  by (simp add: submits_hardcoded_triple_def teacher_with_code_def body_field_def get_def
        demo_env_def demo_support_def doc_id_def new_teacher_def)

section \<open>Student registration\<close>
























section \<open>Support login\<close>
























section \<open>Deletion by identifier\<close>








section \<open>Update by identifier\<close>

















end
